theory Spec2Isabelle
  imports Main "HOL-Library.Sublist"
begin

section \<open>The table dialog of the table plugin (TableDialog.ts)\<close>

text \<open>
  The module drives the "Table Properties" dialog: it computes the initial form data,
  builds the form, and on submit writes attributes and styles back onto the table
  element. Its functions are embedded as HOL functions over an explicit DOM tree.
  Writes that go through the editor's DOM layer (\<open>dom.setStyle\<close>, \<open>dom.setAttribs\<close>)
  and calls of the other collaborators are recorded, in program order, as a list of
  calls together with the arguments they are given: the DOM layer normalises what it
  is given, and the module decides only what it passes. Neither kind of write changes
  a tag name or a child list. Structural changes of the tree (removing a node,
  inserting a node) are carried out on the tree.
\<close>

subsection \<open>Values and objects\<close>

text \<open>
  A form field is an optional string: \<open>None\<close> is JavaScript's \<open>undefined\<close> (also a
  property that was deleted). The caption field holds a string or a boolean.
\<close>

datatype jsval = Undefined | Str string | Bool bool

text \<open>
  A JavaScript object with string keys: \<open>None\<close> is a key that is absent,
  \<open>Some None\<close> a key that is present with the value \<open>undefined\<close>.
\<close>

type_synonym jsobj = "string \<rightharpoonup> string option"

text \<open>Truthiness of an optional string: \<open>undefined\<close> and the empty string are falsy.\<close>

fun truthy :: "string option \<Rightarrow> bool" where
  "truthy None = False"
| "truthy (Some s) = (s \<noteq> [])"

text \<open>
  Modelled from the spec: \<open>Merger.merge\<close> of the katamari library, which is not part
  of the sources. "Merged under means computed values win on key conflict": every key
  of the second object, whatever its value, replaces the same key of the first.
\<close>

definition merge :: "jsobj \<Rightarrow> jsobj \<Rightarrow> jsobj" where
  "merge defaults computed = defaults ++ computed"

text \<open>
  Modelled from the spec: the size helpers \<open>Util.addSizeSuffix\<close> and
  \<open>Util.removePxSuffix\<close> of \<open>alien/Util\<close>, which is not part of the sources.
  "Append a length unit to a bare numeric size; strip a pixel unit suffix from a size
  string"; every other size passes through unchanged. The unit appended is taken to be
  the pixel, the unit that the other helper strips. The spec does not say what an
  absent size becomes; it is passed on as absent here.
\<close>

definition is_digit :: "char \<Rightarrow> bool" where
  "is_digit c = (c \<in> set ''0123456789'')"

definition addSizeSuffix :: "string option \<Rightarrow> string option" where
  "addSizeSuffix sz =
     (case sz of
        None \<Rightarrow> None
      | Some s \<Rightarrow> if s \<noteq> [] \<and> list_all is_digit s then Some (s @ ''px'') else Some s)"

definition removePxSuffix :: "string option \<Rightarrow> string option" where
  "removePxSuffix sz =
     (case sz of
        None \<Rightarrow> None
      | Some s \<Rightarrow> if suffix ''px'' s then Some (take (length s - 2) s) else Some s)"

subsection \<open>The DOM tree\<close>

text \<open>
  An element has its tag name (upper case, as the DOM of an HTML document reports
  it), its attributes, and its child nodes: text nodes (\<open>Inl\<close>) and elements
  (\<open>Inr\<close>). \<open>exposes_children\<close> says whether the host gives the element a
  \<open>children\<close> property at all (the source tests \<open>elm.children\<close> before it reads
  it). An element is identified by its path: the positions, among the child nodes,
  that lead to it from the table element.
\<close>

datatype element =
  Element (tagName: string) (attribs: "(string \<times> string) list")
    (exposes_children: bool) (childNodes: "(string + element) list")

type_synonym path = "nat list"

text \<open>The element children, in document order, each with its position.\<close>

fun element_children_of :: "(nat \<times> (string + element)) list \<Rightarrow> (nat \<times> element) list" where
  "element_children_of [] = []"
| "element_children_of ((i, Inl s) # cs) = element_children_of cs"
| "element_children_of ((i, Inr k) # cs) = (i, k) # element_children_of cs"

definition element_children :: "element \<Rightarrow> (nat \<times> element) list" where
  "element_children elm = element_children_of (enumerate 0 (childNodes elm))"

text \<open>\<open>elm.children\<close>: \<open>None\<close> when the element has no such property.\<close>

definition children :: "element \<Rightarrow> (nat \<times> element) list option" where
  "children elm = (if exposes_children elm then Some (element_children elm) else None)"

fun node_at :: "element \<Rightarrow> path \<Rightarrow> element option" where
  "node_at elm [] = Some elm"
| "node_at elm (i # p) =
     (if i < length (childNodes elm)
      then (case childNodes elm ! i of Inl s \<Rightarrow> None | Inr k \<Rightarrow> node_at k p)
      else None)"

text \<open>
  Modelled from the spec: \<open>dom.getAttrib\<close> of the editor's DOM layer ("get
  attributes"), which is not part of the sources. An attribute that the element does
  not carry reads as the empty string, which is falsy as an empty attribute is.
\<close>

definition getAttrib :: "element \<Rightarrow> string \<Rightarrow> string" where
  "getAttrib elm name = (case map_of (attribs elm) name of None \<Rightarrow> [] | Some v \<Rightarrow> v)"

lemma element_children_of_mem:
  "(c \<in> set (element_children_of cs)) = ((fst c, Inr (snd c)) \<in> set cs)"
  by (induction cs rule: element_children_of.induct) auto

lemma element_children_mem:
  "(c \<in> set (element_children elm)) =
     (fst c < length (childNodes elm) \<and> childNodes elm ! fst c = Inr (snd c))"
  by (auto simp: element_children_def element_children_of_mem in_set_enumerate_eq)

lemma element_children_smaller:
  assumes "c \<in> set (element_children elm)"
  shows "size (snd c) < size elm"
proof (cases elm)
  case (Element t a e ks)
  with assms have "Inr (snd c) \<in> set ks"
    by (metis element.sel(4) element_children_mem nth_mem)
  then have "size (snd c) < Suc (size_list (size_sum (\<lambda>_. 0) size) ks)"
    using size_list_estimation' [of "Inr (snd c)" ks "Suc (size (snd c))" "size_sum (\<lambda>_. 0) size"]
    by simp
  with Element show ?thesis by simp
qed

subsection \<open>Calls of the collaborators\<close>

text \<open>
  The first argument of \<open>dom.setStyle\<close> is a style name or a map of styles; the
  second, optional, is a value.
\<close>

datatype style_arg = StyleName string | StyleMap jsobj

datatype call =
    Close
  | TransactBegin
  | TransactEnd
  | InsertTable string string
  | SetStyle path style_arg "style_arg option"
  | SetAttribs path jsobj
  | UnApplyAlign
  | ApplyAlign "string option"
  | Focus
  | AddVisual

subsection \<open>Style propagation\<close>

text \<open>
  \<open>styleTDTH dom elm name value\<close>, with \<open>p\<close> the path of \<open>elm\<close>: the calls of
  \<open>dom.setStyle\<close> it makes, in order. The loop over \<open>elm.children\<close> is the
  concatenation, in document order, of what each child gives.
\<close>

function styleTDTH :: "path \<Rightarrow> element \<Rightarrow> style_arg \<Rightarrow> style_arg option \<Rightarrow> call list" where
  "styleTDTH p elm name value =
     (if tagName elm = ''TD'' \<or> tagName elm = ''TH'' then [SetStyle p name value]
      else (case children elm of
              None \<Rightarrow> []
            | Some cs \<Rightarrow> concat (map (\<lambda>c. styleTDTH (p @ [fst c]) (snd c) name value) cs)))"
  by pat_completeness auto

termination styleTDTH
  by (relation "measure (\<lambda>(p, elm, name, value). size elm)")
    (auto simp: children_def dest: element_children_smaller split: if_splits)

declare styleTDTH.simps [simp del]

text \<open>
  The first layer of cell nodes, in the words of the spec: the element at the path is
  a cell (\<open>TD\<close>/\<open>TH\<close>), and every element above it on the path is not a cell and
  has a children list.
\<close>

definition is_cell :: "element \<Rightarrow> bool" where
  "is_cell elm = (tagName elm = ''TD'' \<or> tagName elm = ''TH'')"

definition first_layer :: "element \<Rightarrow> path \<Rightarrow> bool" where
  "first_layer root q =
     ((case node_at root q of Some c \<Rightarrow> is_cell c | None \<Rightarrow> False) \<and>
      list_all (\<lambda>q'. case node_at root q' of
                        Some a \<Rightarrow> \<not> is_cell a \<and> children a \<noteq> None
                      | None \<Rightarrow> False)
        (butlast (prefixes q)))"

text \<open>
  The cells that the table hands its styles down to: the first layer of cells of each
  of its element children, when it has a children list.
\<close>

definition cell_targets :: "element \<Rightarrow> path \<Rightarrow> bool" where
  "cell_targets tableElm q =
     (case q of
        [] \<Rightarrow> False
      | i # q' \<Rightarrow>
          children tableElm \<noteq> None \<and>
          (case node_at tableElm [i] of Some k \<Rightarrow> first_layer k q' | None \<Rightarrow> False))"


subsection \<open>Form data and the editor\<close>

record TableData =
  width :: "string option"
  height :: "string option"
  cellspacing :: "string option"
  cellpadding :: "string option"
  border :: "string option"
  caption :: jsval
  align :: "string option"
  class' :: "string option"
  borderstyle :: "string option"
  bordercolor :: "string option"
  backgroundcolor :: "string option"
  cols :: "string option"
  rows :: "string option"

text \<open>The form schema handed to the dialog host.\<close>

datatype list_item = ListItem string string

datatype component =
    Input string string
  | Checkbox string string
  | Label string "component list"
  | Selectbox string string "list_item list"
  | Grid nat "component list"

datatype tab = Tab string "component list"

datatype body = Panel "component list" | TabPanel "tab list"

datatype button = Button string string string bool

text \<open>
  The editor, as far as the module reads it: the settings accessors of
  \<open>api/Settings\<close>, \<open>dom.serializeStyle\<close>, \<open>Env.ie\<close>, the table around the start of
  the selection (\<open>dom.getParent(editor.selection.getStart(), 'table')\<close>), the data
  extraction and list helpers of \<open>Helpers\<close>, and \<open>InsertTable.insert\<close>. None of them
  is part of the sources; each is a parameter. \<open>buildListItems\<close> stands for the helper
  together with the callback that the module passes to it.
\<close>

record editor =
  shouldStyleWithCss :: bool
  hasAdvancedTableTab :: bool
  hasAppearanceOptions :: bool
  getTableClassList :: "list_item list"
  getDefaultAttributes :: jsobj
  getDefaultStyles :: jsobj
  serializeStyle :: "jsobj \<Rightarrow> string"
  ie :: bool
  selectionTable :: "element option"
  extractDataFromSettings :: "bool \<Rightarrow> TableData"
  extractDataFromTableElement :: "element \<Rightarrow> bool \<Rightarrow> TableData"
  insertTable :: "string \<Rightarrow> string \<Rightarrow> element"
  buildListItems :: "list_item list \<Rightarrow> list_item list"
  getAdvancedTab :: tab

subsection \<open>Applying the form data to the table element\<close>

text \<open>The object \<open>attrs\<close> as it stands before its \<open>style\<close> is assigned.\<close>

definition computed_attrs :: "editor \<Rightarrow> element \<Rightarrow> TableData \<Rightarrow> jsobj" where
  "computed_attrs editor tableElm data =
     (let attrs = [''class'' \<mapsto> class' data];
          attrs = (if getAttrib tableElm ''width'' \<noteq> [] \<and> \<not> shouldStyleWithCss editor
                   then attrs(''width'' \<mapsto> removePxSuffix (width data))
                   else attrs);
          attrs = (if shouldStyleWithCss editor then attrs
                   else attrs(''border'' \<mapsto> border data,
                              ''cellpadding'' \<mapsto> cellpadding data,
                              ''cellspacing'' \<mapsto> cellspacing data))
      in attrs)"

text \<open>The object \<open>styles\<close> as it stands when it is merged and serialized.\<close>

definition computed_styles :: "editor \<Rightarrow> element \<Rightarrow> TableData \<Rightarrow> jsobj" where
  "computed_styles editor tableElm data =
     (let styles = [''height'' \<mapsto> addSizeSuffix (height data)];
          styles = (if getAttrib tableElm ''width'' \<noteq> [] \<and> \<not> shouldStyleWithCss editor
                    then styles
                    else styles(''width'' \<mapsto> addSizeSuffix (width data)));
          styles = (if shouldStyleWithCss editor
                    then styles(''border-width'' \<mapsto> addSizeSuffix (border data),
                                ''border-spacing'' \<mapsto> addSizeSuffix (cellspacing data))
                    else styles);
          styles = (if hasAdvancedTableTab editor
                    then styles(''background-color'' \<mapsto> backgroundcolor data,
                                ''border-color'' \<mapsto> bordercolor data,
                                ''border-style'' \<mapsto> borderstyle data)
                    else styles)
      in styles)"

text \<open>The style map given to \<open>dom.serializeStyle\<close>.\<close>

definition applied_styles :: "editor \<Rightarrow> element \<Rightarrow> TableData \<Rightarrow> jsobj" where
  "applied_styles editor tableElm data =
     merge (getDefaultStyles editor) (computed_styles editor tableElm data)"

text \<open>The attribute map given to \<open>dom.setAttribs\<close>.\<close>

definition applied_attrs :: "editor \<Rightarrow> element \<Rightarrow> TableData \<Rightarrow> jsobj" where
  "applied_attrs editor tableElm data =
     merge (getDefaultAttributes editor)
       ((computed_attrs editor tableElm data)
          (''style'' \<mapsto> Some (serializeStyle editor (applied_styles editor tableElm data))))"

text \<open>The two style maps that are handed down to the cells.\<close>

definition cell_border_padding :: "TableData \<Rightarrow> jsobj" where
  "cell_border_padding data =
     [''border-width'' \<mapsto> addSizeSuffix (border data),
      ''padding'' \<mapsto> addSizeSuffix (cellpadding data)]"

definition cell_border_color :: "TableData \<Rightarrow> jsobj" where
  "cell_border_color data = [''border-color'' \<mapsto> bordercolor data]"

text \<open>The loop over \<open>tableElm.children\<close>.\<close>

definition propagate :: "editor \<Rightarrow> element \<Rightarrow> TableData \<Rightarrow> call list" where
  "propagate editor tableElm data =
     (if shouldStyleWithCss editor then
        (case children tableElm of
           None \<Rightarrow> []
         | Some cs \<Rightarrow>
             concat (map (\<lambda>c.
               styleTDTH [fst c] (snd c) (StyleMap (cell_border_padding data)) None @
               (if hasAdvancedTableTab editor
                then styleTDTH [fst c] (snd c) (StyleMap (cell_border_color data)) None
                else [])) cs))
      else [])"

definition applyDataToElement :: "editor \<Rightarrow> element \<Rightarrow> TableData \<Rightarrow> call list" where
  "applyDataToElement editor tableElm data =
     propagate editor tableElm data @ [SetAttribs [] (applied_attrs editor tableElm data)]"

subsection \<open>The submit handler\<close>

text \<open>
  Modelled from the spec: \<open>dom.select\<close>, \<open>dom.remove\<close> and \<open>dom.create\<close> of the
  editor's DOM layer ("query descendant by tag, create element, remove element"),
  which is not part of the sources. \<open>select\<close> gives the paths of the descendants with
  the tag, in document order; a tag selector matches the upper-case tag name of an
  HTML element.
\<close>

function descendants :: "path \<Rightarrow> element \<Rightarrow> (path \<times> element) list" where
  "descendants p elm =
     concat (map (\<lambda>c. (p @ [fst c], snd c) # descendants (p @ [fst c]) (snd c))
       (element_children elm))"
  by pat_completeness auto

termination descendants
  by (relation "measure (\<lambda>(p, elm). size elm)")
    (auto dest: element_children_smaller)

declare descendants.simps [simp del]

definition upcase :: "char \<Rightarrow> char" where
  "upcase c =
     (case map_of (zip ''abcdefghijklmnopqrstuvwxyz'' ''ABCDEFGHIJKLMNOPQRSTUVWXYZ'') c of
        Some u \<Rightarrow> u
      | None \<Rightarrow> c)"

definition select :: "string \<Rightarrow> element \<Rightarrow> path list" where
  "select tag elm =
     map fst (filter (\<lambda>d. tagName (snd d) = map upcase tag) (descendants [] elm))"

text \<open>
  \<open>remove p elm\<close> takes the node at the path \<open>p\<close>, with all below it, out of the
  child nodes of its parent. The empty path is the table element itself, which a
  query below it never gives.
\<close>

fun remove :: "path \<Rightarrow> element \<Rightarrow> element" where
  "remove [] elm = elm"
| "remove [i] (Element t a e ks) = Element t a e (take i ks @ drop (Suc i) ks)"
| "remove (i # j # p) (Element t a e ks) =
     Element t a e
       (if i < length ks
        then ks[i := (case ks ! i of Inl s \<Rightarrow> Inl s | Inr k \<Rightarrow> Inr (remove (j # p) k))]
        else ks)"

definition create :: "string \<Rightarrow> element" where
  "create tag = Element (map upcase tag) [] True []"

text \<open>
  \<open>captionElm.innerHTML = ...\<close>: the child nodes that the markup stands for, a bogus
  line break or, on IE, a text node with a no-break space (U+00A0, in UTF-8).
\<close>

definition caption_placeholder :: "editor \<Rightarrow> (string + element) list" where
  "caption_placeholder editor =
     (if \<not> ie editor then [Inr (Element ''BR'' [(''data-mce-bogus'', ''1'')] True [])]
      else [Inl [CHR 0xC2, CHR 0xA0]])"

text \<open>The assignment to \<open>innerHTML\<close> replaces the child nodes.\<close>

fun set_innerHTML :: "(string + element) list \<Rightarrow> element \<Rightarrow> element" where
  "set_innerHTML ks (Element t a e old) = Element t a e ks"

text \<open>\<open>tableElm.insertBefore(captionElm, tableElm.firstChild)\<close>\<close>

fun insertBefore_firstChild :: "element \<Rightarrow> element \<Rightarrow> element" where
  "insertBefore_firstChild captionElm (Element t a e ks) = Element t a e (Inr captionElm # ks)"

record submit_result =
  table :: element
  calls :: "call list"

text \<open>
  \<open>onSubmitTableForm editor tableElm api\<close>, with \<open>api_data\<close> what \<open>api.getData()\<close>
  returns: the table element as it stands after the handler, and the calls made.
\<close>

definition onSubmitTableForm :: "editor \<Rightarrow> element option \<Rightarrow> TableData \<Rightarrow> submit_result" where
  "onSubmitTableForm editor tableElm api_data =
     (let data = (if class' api_data = Some [] then api_data\<lparr>class' := None\<rparr> else api_data);
          cols = (if truthy (cols data) then the (cols data) else ''1'');
          rows = (if truthy (rows data) then the (rows data) else ''1'');
          inserted = (case tableElm of None \<Rightarrow> [InsertTable cols rows] | Some t \<Rightarrow> []);
          tableElm = (case tableElm of None \<Rightarrow> insertTable editor cols rows | Some t \<Rightarrow> t);
          applied = applyDataToElement editor tableElm data;
          captionElm = (case select ''caption'' tableElm of [] \<Rightarrow> None | p # ps \<Rightarrow> Some p);
          removed = (case captionElm of
                       Some p \<Rightarrow> if caption data \<noteq> Str ''checked'' then remove p tableElm
                                 else tableElm
                     | None \<Rightarrow> tableElm);
          toggled = (if captionElm = None \<and> caption data = Str ''checked''
                     then insertBefore_firstChild
                            (set_innerHTML (caption_placeholder editor) (create ''caption''))
                            removed
                     else removed);
          aligned = (if align data = Some [] then [UnApplyAlign] else [ApplyAlign (align data)])
      in \<lparr>table = toggled,
          calls = [Close, TransactBegin] @ inserted @ applied @ aligned @
                  [Focus, AddVisual, TransactEnd]\<rparr>)"

text \<open>
  The table element the handler works on: the one it was bound to or, with none, the
  one that \<open>InsertTable.insert\<close> returns for the columns and rows of the form data.
\<close>

definition submitted_table :: "editor \<Rightarrow> element option \<Rightarrow> TableData \<Rightarrow> element" where
  "submitted_table editor tableElm data =
     (case tableElm of
        None \<Rightarrow> insertTable editor
                  (if truthy (cols data) then the (cols data) else ''1'')
                  (if truthy (rows data) then the (rows data) else ''1'')
      | Some t \<Rightarrow> t)"

text \<open>The form data as the handler uses it: an empty class is deleted.\<close>

definition normalized :: "TableData \<Rightarrow> TableData" where
  "normalized data = (if class' data = Some [] then data\<lparr>class' := None\<rparr> else data)"

subsection \<open>Opening the dialog\<close>

text \<open>
  \<open>data.class.replace(/\s*mce\-item\-table\s*/g, '')\<close>: every match, from left to
  right, is deleted. A match at a position is the longest run of white space there,
  the marker, and the longest run of white space after it. White space is taken
  within ASCII.
\<close>

definition is_space :: "char \<Rightarrow> bool" where
  "is_space c = (c \<in> set [CHR '' '', CHR 0x09, CHR 0x0A, CHR 0x0B, CHR 0x0C, CHR 0x0D])"

definition match_marker :: "string \<Rightarrow> string option" where
  "match_marker s =
     (let s1 = dropWhile is_space s
      in if prefix ''mce-item-table'' s1
         then Some (dropWhile is_space (drop (length ''mce-item-table'') s1))
         else None)"

lemma match_marker_shorter: "match_marker s = Some r \<Longrightarrow> length r < length s"
proof -
  assume m: "match_marker s = Some r"
  define s1 where "s1 = dropWhile is_space s"
  from m have pre: "prefix ''mce-item-table'' s1"
    and r: "r = dropWhile is_space (drop (length ''mce-item-table'') s1)"
    by (auto simp: match_marker_def s1_def Let_def split: if_splits)
  from pre have "length ''mce-item-table'' \<le> length s1"
    by (rule prefix_length_le)
  then have "length (drop (length ''mce-item-table'') s1) < length s1"
    by simp
  moreover have "length r \<le> length (drop (length ''mce-item-table'') s1)"
    unfolding r by (rule length_dropWhile_le)
  moreover have "length s1 \<le> length s"
    unfolding s1_def by (rule length_dropWhile_le)
  ultimately show ?thesis by linarith
qed

function replace_marker :: "string \<Rightarrow> string" where
  "replace_marker [] = []"
| "replace_marker (c # cs) =
     (case match_marker (c # cs) of
        Some r \<Rightarrow> replace_marker r
      | None \<Rightarrow> c # replace_marker cs)"
  by pat_completeness auto

termination replace_marker
  by (relation "measure length") (auto dest: match_marker_shorter)

record dialog =
  title :: string
  dialog_size :: string
  body :: body
  onSubmit :: "TableData \<Rightarrow> submit_result"
  buttons :: "button list"
  initialData :: TableData

text \<open>
  \<open>open editor isNew\<close>: the dialog it asks the window manager to open. \<open>isNew\<close> is
  \<open>Some True\<close>, \<open>Some False\<close> or unset (\<open>None\<close>).
\<close>

definition "open" :: "editor \<Rightarrow> bool option \<Rightarrow> dialog" where
  "open editor isNew =
     (let data = extractDataFromSettings editor (hasAdvancedTableTab editor);
          tableElm = (if isNew = Some False then selectionTable editor else None);
          data =
            (if isNew = Some False then
               (case tableElm of
                  Some t \<Rightarrow> extractDataFromTableElement editor t (hasAdvancedTableTab editor)
                | None \<Rightarrow>
                    if hasAdvancedTableTab editor
                    then data\<lparr>borderstyle := Some [], bordercolor := Some [],
                              backgroundcolor := Some []\<rparr>
                    else data)
             else
               (let data = data\<lparr>cols := Some ''1'', rows := Some ''1''\<rparr>
                in if hasAdvancedTableTab editor
                   then data\<lparr>borderstyle := Some [], bordercolor := Some [],
                             backgroundcolor := Some []\<rparr>
                   else data));
          hasClasses = (length (getTableClassList editor) > 0);
          data = (if hasClasses \<and> truthy (class' data)
                  then data\<lparr>class' := Some (replace_marker (the (class' data)))\<rparr>
                  else data);
          rowColCountItems =
            (if isNew \<noteq> Some True then []
             else [Input ''cols'' ''Cols'', Input ''rows'' ''Rows'']);
          alwaysItems = [Input ''width'' ''Width'', Input ''height'' ''Height''];
          appearanceItems =
            (if hasAppearanceOptions editor
             then [Input ''cellspacing'' ''Cell spacing'',
                   Input ''cellpadding'' ''Cell padding'',
                   Input ''border'' ''Border width'',
                   Label ''Caption'' [Checkbox ''caption'' ''Show caption'']]
             else []);
          alignmentItem =
            [Selectbox ''align'' ''Alignment''
               [ListItem ''None'' [], ListItem ''Left'' ''left'',
                ListItem ''Center'' ''center'', ListItem ''Right'' ''right'']];
          classListItem =
            (if hasClasses
             then [Selectbox ''class'' ''Class''
                     (buildListItems editor (getTableClassList editor))]
             else []);
          generalTabItems =
            rowColCountItems @ alwaysItems @ appearanceItems @ alignmentItem @ classListItem;
          generalPanel = Grid 2 generalTabItems;
          nonAdvancedForm = Panel [generalPanel];
          advancedForm = TabPanel [Tab ''General'' [generalPanel], getAdvancedTab editor];
          dialogBody = (if hasAdvancedTableTab editor then advancedForm else nonAdvancedForm)
      in \<lparr>title = ''Table Properties'',
          dialog_size = ''normal'',
          body = dialogBody,
          onSubmit = onSubmitTableForm editor tableElm,
          buttons = [Button ''cancel'' ''cancel'' ''Cancel'' False,
                     Button ''submit'' ''save'' ''Save'' True],
          initialData = data\<rparr>)"

subsection \<open>Example documents\<close>

text \<open>
  A table with a text node, a body and one row; the row has a \<open>TD\<close> that holds a
  nested table with a cell of its own, and a \<open>TH\<close>.
\<close>

definition inner_cell :: element where
  "inner_cell = Element ''TD'' [] True [Inl ''x'']"

definition inner_table :: element where
  "inner_table = Element ''TABLE'' [] True [Inr (Element ''TR'' [] True [Inr inner_cell])]"

definition outer_cell :: element where
  "outer_cell = Element ''TD'' [] True [Inr inner_table]"

definition head_cell :: element where
  "head_cell = Element ''TH'' [] True []"

definition nested_table :: element where
  "nested_table =
     Element ''TABLE'' [(''width'', ''300'')] True
       [Inl '' '', Inr (Element ''TBODY'' [] True
                      [Inr (Element ''TR'' [] True [Inr outer_cell, Inr head_cell])])]"

text \<open>
  A table whose only caption is the caption of a table nested in one of its cells.
\<close>

definition nested_caption_table :: element where
  "nested_caption_table =
     Element ''TABLE'' [] True
       [Inr (Element ''TBODY'' [] True
          [Inr (Element ''TR'' [] True
             [Inr (Element ''TD'' [] True
                [Inr (Element ''TABLE'' [] True
                   [Inr (Element ''CAPTION'' [] True [Inl ''inner'']),
                    Inr (Element ''TR'' [] True [Inr (Element ''TD'' [] True [])])])])])])]"

text \<open>A table with a caption of its own, after a text node.\<close>

definition captioned_table :: element where
  "captioned_table =
     Element ''TABLE'' [] True
       [Inl '' '', Inr (Element ''CAPTION'' [] True [Inl ''title'']),
        Inr (Element ''TR'' [] True [Inr (Element ''TD'' [] True [])])]"

text \<open>
  Form data as a user may submit it, and two hosts that differ in the CSS styling
  flag only. Both have a default \<open>border\<close> attribute and a default \<open>width\<close> style.
\<close>

definition example_data :: TableData where
  "example_data =
     \<lparr>width = Some ''200'', height = Some ''100'', cellspacing = Some ''2'',
      cellpadding = Some ''3'', border = Some ''1'', caption = Str ''checked'',
      align = Some [], class' = Some [], borderstyle = None, bordercolor = None,
      backgroundcolor = None, cols = None, rows = None\<rparr>"

definition css_editor :: editor where
  "css_editor =
     \<lparr>shouldStyleWithCss = True, hasAdvancedTableTab = False, hasAppearanceOptions = True,
      getTableClassList = [],
      getDefaultAttributes = [''border'' \<mapsto> Some ''1'', ''class'' \<mapsto> Some ''grid''],
      getDefaultStyles = [''border-collapse'' \<mapsto> Some ''collapse'', ''width'' \<mapsto> Some ''100%''],
      serializeStyle = (\<lambda>m. []), ie = False, selectionTable = Some nested_table,
      extractDataFromSettings = (\<lambda>advanced. example_data\<lparr>cols := Some ''3''\<rparr>),
      extractDataFromTableElement = (\<lambda>t advanced. example_data),
      insertTable = (\<lambda>c r. Element ''TABLE'' [] True []),
      buildListItems = (\<lambda>items. items), getAdvancedTab = Tab ''Advanced'' []\<rparr>"

definition attr_editor :: editor where
  "attr_editor = css_editor\<lparr>shouldStyleWithCss := False\<rparr>"

section \<open>Properties\<close>

subsection \<open>Evaluation on a given element\<close>


lemma children_Element:
  "children (Element t a e ks) =
     (if e then Some (element_children_of (enumerate 0 ks)) else None)"
  by (simp add: children_def element_children_def)

lemma styleTDTH_Element:
  "styleTDTH p (Element t a e ks) name value =
     (if t = ''TD'' \<or> t = ''TH'' then [SetStyle p name value]
      else if e
        then concat (map (\<lambda>c. styleTDTH (p @ [fst c]) (snd c) name value)
               (element_children_of (enumerate 0 ks)))
        else [])"
  by (simp add: styleTDTH.simps [of p "Element t a e ks"] children_Element)


lemmas example_defs =
  nested_table_def outer_cell_def head_cell_def inner_table_def inner_cell_def
  nested_caption_table_def captioned_table_def

lemmas editor_defs = css_editor_def attr_editor_def example_data_def

subsection \<open>The first layer of cells\<close>

lemma first_layer_Nil: "first_layer elm [] = is_cell elm"
  by (simp add: first_layer_def)

lemma list_all_butlast_prefixes_Cons:
  "list_all P (butlast (prefixes (i # q))) =
     (P [] \<and> list_all (\<lambda>q'. P (i # q')) (butlast (prefixes q)))"
proof -
  have "butlast (prefixes (i # q)) = [] # map ((#) i) (butlast (prefixes q))"
    by (simp add: map_butlast)
  then show ?thesis
    by (simp add: list.pred_map comp_def)
qed

lemma first_layer_Cons:
  "first_layer elm (i # q) =
     (\<not> is_cell elm \<and> children elm \<noteq> None \<and>
      (\<exists>k. (i, k) \<in> set (element_children elm) \<and> first_layer k q))"
proof (cases "i < length (childNodes elm)")
  case True
  show ?thesis
  proof (cases "childNodes elm ! i")
    case (Inl s)
    with True show ?thesis
      unfolding first_layer_def list_all_butlast_prefixes_Cons
      by (auto simp: element_children_mem)
  next
    case (Inr k)
    with True show ?thesis
      unfolding first_layer_def list_all_butlast_prefixes_Cons
      by (auto simp: element_children_mem)
  qed
next
  case False
  then show ?thesis
    by (simp add: first_layer_def element_children_mem)
qed

lemma styleTDTH_cell:
  "is_cell elm \<Longrightarrow> styleTDTH p elm name value = [SetStyle p name value]"
  by (simp add: styleTDTH.simps [of p elm] is_cell_def)

lemma styleTDTH_noncell:
  "\<not> is_cell elm \<Longrightarrow>
   styleTDTH p elm name value =
     (case children elm of
        None \<Rightarrow> []
      | Some cs \<Rightarrow> concat (map (\<lambda>c. styleTDTH (p @ [fst c]) (snd c) name value) cs))"
  by (simp add: styleTDTH.simps [of p elm] is_cell_def)

lemma styleTDTH_set:
  "set (styleTDTH p elm name value) =
     (\<lambda>q. SetStyle (p @ q) name value) ` {q. first_layer elm q}"
proof (induction p elm name "value" rule: styleTDTH.induct)
  case (1 p elm name "value")
  show ?case
  proof (cases "is_cell elm")
    case True
    have "first_layer elm q = (q = [])" for q
      using True by (cases q) (simp_all add: first_layer_Nil first_layer_Cons)
    then have "{q. first_layer elm q} = {[]}"
      by simp
    with True show ?thesis
      by (simp add: styleTDTH_cell)
  next
    case noncell: False
    show ?thesis
    proof (cases "children elm")
      case None
      have "\<not> first_layer elm q" for q
        using noncell None by (cases q) (simp_all add: first_layer_Nil first_layer_Cons)
      with noncell None show ?thesis
        by (simp add: styleTDTH_noncell)
    next
      case (Some cs)
      then have cs: "cs = element_children elm"
        by (simp add: children_def split: if_splits)
      have nc: "\<not> (tagName elm = ''TD'' \<or> tagName elm = ''TH'')"
        using noncell by (simp add: is_cell_def)
      have IH: "set (styleTDTH (p @ [fst c]) (snd c) name value) =
          (\<lambda>q. SetStyle (p @ fst c # q) name value) ` {q. first_layer (snd c) q}"
        if "c \<in> set cs" for c
        using "1.IH" [OF nc Some that] by simp
      have "set (styleTDTH p elm name value) =
          (\<Union>c\<in>set cs. set (styleTDTH (p @ [fst c]) (snd c) name value))"
        using noncell Some by (simp add: styleTDTH_noncell)
      also have "\<dots> =
          (\<Union>c\<in>set cs. (\<lambda>q. SetStyle (p @ fst c # q) name value) ` {q. first_layer (snd c) q})"
        using IH by simp
      also have "\<dots> = (\<lambda>q. SetStyle (p @ q) name value) ` {q. first_layer elm q}"
      proof (intro set_eqI iffI)
        fix x
        assume "x \<in> (\<Union>c\<in>set cs.
          (\<lambda>q. SetStyle (p @ fst c # q) name value) ` {q. first_layer (snd c) q})"
        then obtain c q' where c: "c \<in> set cs" "first_layer (snd c) q'"
          and x: "x = SetStyle (p @ fst c # q') name value"
          by auto
        from c have "(fst c, snd c) \<in> set (element_children elm)"
          by (simp add: cs)
        with c noncell Some have "first_layer elm (fst c # q')"
          unfolding first_layer_Cons by blast
        with x show "x \<in> (\<lambda>q. SetStyle (p @ q) name value) ` {q. first_layer elm q}"
          by blast
      next
        fix x
        assume "x \<in> (\<lambda>q. SetStyle (p @ q) name value) ` {q. first_layer elm q}"
        then obtain q where q: "first_layer elm q" and x: "x = SetStyle (p @ q) name value"
          by auto
        from q noncell obtain i q' where iq: "q = i # q'"
          by (cases q) (simp_all add: first_layer_Nil)
        from q have "first_layer elm (i # q')"
          by (simp add: iq)
        then obtain k where "(i, k) \<in> set cs" "first_layer k q'"
          unfolding first_layer_Cons cs by blast
        with x iq show "x \<in> (\<Union>c\<in>set cs.
          (\<lambda>q. SetStyle (p @ fst c # q) name value) ` {q. first_layer (snd c) q})"
          by force
      qed
      finally show ?thesis .
    qed
  qed
qed

lemma styleTDTH_mem:
  "(SetStyle (p @ q) name value \<in> set (styleTDTH p elm name value)) = first_layer elm q"
  by (auto simp: styleTDTH_set)

subsection \<open>Claim C1\<close>

text \<open>
  C1. On a cell (\<open>TD\<close> or \<open>TH\<close>) \<open>styleTDTH\<close> makes the one call of
  \<open>dom.setStyle\<close> on that node, with the name and value it was given, and goes no
  further. On any other node it makes no call on the node itself and gives, in the
  order of the children list, what it gives on each child; with no children list it
  gives nothing. Hence the calls are exactly those on the first layer of cells: a cell
  with no cell above it, reached through children lists only.
\<close>

theorem styleTDTH_first_layer_only:
  "(is_cell elm \<longrightarrow> styleTDTH p elm name value = [SetStyle p name value]) \<and>
   (\<not> is_cell elm \<longrightarrow>
      styleTDTH p elm name value =
        (case children elm of
           None \<Rightarrow> []
         | Some cs \<Rightarrow> concat (map (\<lambda>c. styleTDTH (p @ [fst c]) (snd c) name value) cs)) \<and>
      (\<forall>n v. SetStyle p n v \<notin> set (styleTDTH p elm name value))) \<and>
   set (styleTDTH p elm name value) =
     (\<lambda>q. SetStyle (p @ q) name value) ` {q. first_layer elm q}"
proof (intro conjI impI allI)
  assume "is_cell elm"
  then show "styleTDTH p elm name value = [SetStyle p name value]"
    by (rule styleTDTH_cell)
next
  assume "\<not> is_cell elm"
  then show "styleTDTH p elm name value =
      (case children elm of
         None \<Rightarrow> []
       | Some cs \<Rightarrow> concat (map (\<lambda>c. styleTDTH (p @ [fst c]) (snd c) name value) cs))"
    by (rule styleTDTH_noncell)
next
  fix n v
  assume noncell: "\<not> is_cell elm"
  show "SetStyle p n v \<notin> set (styleTDTH p elm name value)"
  proof
    assume "SetStyle p n v \<in> set (styleTDTH p elm name value)"
    then obtain q where "first_layer elm q" and "p = p @ q"
      by (auto simp: styleTDTH_set)
    with noncell show False
      by (simp add: first_layer_Nil)
  qed
next
  show "set (styleTDTH p elm name value) =
      (\<lambda>q. SetStyle (p @ q) name value) ` {q. first_layer elm q}"
    by (rule styleTDTH_set)
qed

text \<open>
  C1, on the example: the outer cell is styled and its nested table is not entered;
  the table is not styled, its two outermost cells are, in document order.
\<close>

theorem styleTDTH_first_layer_only_witness:
  "is_cell outer_cell \<and>
   styleTDTH [1, 0, 0] outer_cell (StyleName ''color'') (Some (StyleName ''red'')) =
     [SetStyle [1, 0, 0] (StyleName ''color'') (Some (StyleName ''red''))] \<and>
   \<not> is_cell nested_table \<and>
   styleTDTH [] nested_table (StyleName ''color'') (Some (StyleName ''red'')) =
     [SetStyle [1, 0, 0] (StyleName ''color'') (Some (StyleName ''red'')),
      SetStyle [1, 0, 1] (StyleName ''color'') (Some (StyleName ''red''))]"
  using styleTDTH_first_layer_only [of outer_cell "[1, 0, 0]" "StyleName ''color''" "Some (StyleName ''red'')"]
    styleTDTH_first_layer_only [of nested_table "[]" "StyleName ''color''" "Some (StyleName ''red'')"]
  by (simp add: example_defs is_cell_def children_Element styleTDTH_Element)

subsection \<open>Claim C2\<close>

text \<open>
  C2 as stated does not hold: it asks for every cell of the tree to be styled,
  "including cells nested inside other cells". In the example the root is not a cell
  and the cell of the nested table lies inside the outer cell; it is not styled.
\<close>

theorem styleTDTH_nested_cell_counterexample:
  "\<not> is_cell nested_table \<and>
   node_at nested_table [1, 0, 0, 0, 0, 0] = Some inner_cell \<and>
   is_cell inner_cell \<and>
   SetStyle [1, 0, 0, 0, 0, 0] (StyleName ''color'') (Some (StyleName ''red''))
     \<notin> set (styleTDTH [] nested_table (StyleName ''color'') (Some (StyleName ''red'')))"
  by (simp add: example_defs is_cell_def styleTDTH_Element)

text \<open>
  C2, amended. An element of the tree is styled exactly when it is a cell and every
  element above it, from the root on, is not a cell and has a children list; every call
  made is a call on a cell of the tree, so that no other node is styled. This holds at
  any depth.
\<close>

theorem styleTDTH_outermost_cells:
  "(node_at elm q = Some c \<longrightarrow>
      (SetStyle (p @ q) name value \<in> set (styleTDTH p elm name value)) =
        (is_cell c \<and>
         list_all (\<lambda>q'. case node_at elm q' of
                          Some a \<Rightarrow> \<not> is_cell a \<and> children a \<noteq> None
                        | None \<Rightarrow> False)
           (butlast (prefixes q)))) \<and>
   (\<forall>x\<in>set (styleTDTH p elm name value).
      \<exists>q' c'. x = SetStyle (p @ q') name value \<and> node_at elm q' = Some c' \<and> is_cell c')"
proof (intro conjI impI ballI)
  assume "node_at elm q = Some c"
  then show "(SetStyle (p @ q) name value \<in> set (styleTDTH p elm name value)) =
      (is_cell c \<and>
       list_all (\<lambda>q'. case node_at elm q' of
                        Some a \<Rightarrow> \<not> is_cell a \<and> children a \<noteq> None
                      | None \<Rightarrow> False)
         (butlast (prefixes q)))"
    by (simp add: styleTDTH_mem first_layer_def)
next
  fix x
  assume "x \<in> set (styleTDTH p elm name value)"
  then obtain q' where "x = SetStyle (p @ q') name value" and "first_layer elm q'"
    by (auto simp: styleTDTH_set)
  then show "\<exists>q' c'. x = SetStyle (p @ q') name value \<and> node_at elm q' = Some c' \<and> is_cell c'"
    by (auto simp: first_layer_def split: option.splits)
qed

text \<open>
  C2 amended, on the example: the \<open>TH\<close> of the row is styled, the row is not.
\<close>

theorem styleTDTH_outermost_cells_witness:
  "node_at nested_table [1, 0, 1] = Some head_cell \<and>
   SetStyle [1, 0, 1] (StyleName ''color'') None
     \<in> set (styleTDTH [] nested_table (StyleName ''color'') None) \<and>
   node_at nested_table [1, 0] = Some (Element ''TR'' [] True [Inr outer_cell, Inr head_cell]) \<and>
   SetStyle [1, 0] (StyleName ''color'') None
     \<notin> set (styleTDTH [] nested_table (StyleName ''color'') None)"
proof -
  have a: "node_at nested_table [1, 0, 1] = Some head_cell"
    by (simp add: example_defs)
  have b: "node_at nested_table [1, 0] = Some (Element ''TR'' [] True [Inr outer_cell, Inr head_cell])"
    by (simp add: example_defs)
  from styleTDTH_outermost_cells [of nested_table "[1, 0, 1]" head_cell "[]" "StyleName ''color''" None] a
  have "(SetStyle [1, 0, 1] (StyleName ''color'') None
       \<in> set (styleTDTH [] nested_table (StyleName ''color'') None)) =
      (is_cell head_cell \<and>
         list_all (\<lambda>q'. case node_at nested_table q' of
                          Some a \<Rightarrow> \<not> is_cell a \<and> children a \<noteq> None
                        | None \<Rightarrow> False)
           (butlast (prefixes [1, 0, 1])))"
    by simp
  then have c: "SetStyle [1, 0, 1] (StyleName ''color'') None
       \<in> set (styleTDTH [] nested_table (StyleName ''color'') None)"
    by (simp add: example_defs is_cell_def children_Element)
  from styleTDTH_outermost_cells [of nested_table "[1, 0]" "Element ''TR'' [] True [Inr outer_cell, Inr head_cell]" "[]" "StyleName ''color''" None] b
  have d: "SetStyle [1, 0] (StyleName ''color'') None
       \<notin> set (styleTDTH [] nested_table (StyleName ''color'') None)"
    by (simp add: is_cell_def)
  from a b c d show ?thesis by simp
qed

subsection \<open>The calls of \<open>applyDataToElement\<close>\<close>

lemma styleTDTH_calls:
  "x \<in> set (styleTDTH p elm name value) \<Longrightarrow> \<exists>q. x = SetStyle (p @ q) name value"
  by (auto simp: styleTDTH_set)

lemma propagate_on:
  "shouldStyleWithCss editor \<Longrightarrow> children tableElm = Some cs \<Longrightarrow>
   propagate editor tableElm data =
     concat (map (\<lambda>c.
       styleTDTH [fst c] (snd c) (StyleMap (cell_border_padding data)) None @
       (if hasAdvancedTableTab editor
        then styleTDTH [fst c] (snd c) (StyleMap (cell_border_color data)) None
        else [])) cs)"
  by (simp add: propagate_def)

lemma propagate_none:
  "\<not> shouldStyleWithCss editor \<or> children tableElm = None \<Longrightarrow>
   propagate editor tableElm data = []"
  by (auto simp add: propagate_def)

lemma propagate_calls:
  assumes "x \<in> set (propagate editor tableElm data)"
  shows "\<exists>q n. x = SetStyle q n None"
proof (cases "shouldStyleWithCss editor \<and> children tableElm \<noteq> None")
  case False
  then have "propagate editor tableElm data = []"
    by (intro propagate_none) auto
  with assms show ?thesis
    by simp
next
  case True
  then obtain cs where css: "shouldStyleWithCss editor" and cs: "children tableElm = Some cs"
    by auto
  from assms obtain c where
    "x \<in> set (styleTDTH [fst c] (snd c) (StyleMap (cell_border_padding data)) None) \<or>
     x \<in> set (styleTDTH [fst c] (snd c) (StyleMap (cell_border_color data)) None)"
    unfolding propagate_on [OF css cs]
    by (auto split: if_splits)
  then show ?thesis
    by (blast dest: styleTDTH_calls)
qed

lemma propagate_off:
  "\<not> shouldStyleWithCss editor \<Longrightarrow> propagate editor tableElm data = []"
  by (simp add: propagate_def)

lemma SetAttribs_applied:
  "(SetAttribs p m \<in> set (applyDataToElement editor tableElm data)) =
     (p = [] \<and> m = applied_attrs editor tableElm data)"
  by (auto simp: applyDataToElement_def dest: propagate_calls)

lemma merge_apply:
  "merge d c k = (case c k of None \<Rightarrow> d k | Some v \<Rightarrow> Some v)"
  by (simp add: merge_def map_add_def)

subsection \<open>Claim C3\<close>

text \<open>
  C3 as stated does not hold: the attribute map that is applied is the computed map
  merged over the host's default attributes, and a host whose defaults have a
  \<open>border\<close> attribute has it in the applied map, with CSS styling on as well.
\<close>

theorem applyDataToElement_default_border_counterexample:
  "shouldStyleWithCss css_editor \<and>
   SetAttribs [] (applied_attrs css_editor nested_table example_data)
     \<in> set (applyDataToElement css_editor nested_table example_data) \<and>
   applied_attrs css_editor nested_table example_data ''border'' = Some (Some ''1'')"
  by (simp add: SetAttribs_applied)
    (simp add: applied_attrs_def computed_attrs_def Let_def merge_apply editor_defs)

text \<open>
  C3, amended. The one call of \<open>dom.setAttribs\<close> is on the table element, with the
  applied attribute map, whose \<open>style\<close> is the serialized applied style map. With CSS
  styling on, the form data puts no \<open>border\<close>, \<open>cellpadding\<close> or \<open>cellspacing\<close>
  into the attribute map: the applied map has such a key only as the host's default
  attributes have it. With CSS styling off, the form data puts no \<open>border-width\<close> or
  \<open>border-spacing\<close> into the style map: the applied style map has such a key only as
  the host's default styles have it, and no cell is styled.
\<close>

theorem applyDataToElement_border_keys:
  "(\<forall>p m. SetAttribs p m \<in> set (applyDataToElement editor tableElm data) \<longrightarrow>
      p = [] \<and> m = applied_attrs editor tableElm data) \<and>
   applied_attrs editor tableElm data ''style'' =
     Some (Some (serializeStyle editor (applied_styles editor tableElm data))) \<and>
   (shouldStyleWithCss editor \<longrightarrow>
      (\<forall>k\<in>{''border'', ''cellpadding'', ''cellspacing''}.
         computed_attrs editor tableElm data k = None \<and>
         applied_attrs editor tableElm data k = getDefaultAttributes editor k)) \<and>
   (\<not> shouldStyleWithCss editor \<longrightarrow>
      (\<forall>k\<in>{''border-width'', ''border-spacing''}.
         computed_styles editor tableElm data k = None \<and>
         applied_styles editor tableElm data k = getDefaultStyles editor k) \<and>
      (\<forall>p n v. SetStyle p n v \<notin> set (applyDataToElement editor tableElm data)))"
proof (intro conjI impI allI)
  fix p m
  assume "SetAttribs p m \<in> set (applyDataToElement editor tableElm data)"
  then show "p = []" and "m = applied_attrs editor tableElm data"
    by (simp_all add: SetAttribs_applied)
next
  show "applied_attrs editor tableElm data ''style'' =
      Some (Some (serializeStyle editor (applied_styles editor tableElm data)))"
    by (simp add: applied_attrs_def merge_apply)
next
  assume "shouldStyleWithCss editor"
  then show "\<forall>k\<in>{''border'', ''cellpadding'', ''cellspacing''}.
      computed_attrs editor tableElm data k = None \<and>
      applied_attrs editor tableElm data k = getDefaultAttributes editor k"
    by (simp add: applied_attrs_def computed_attrs_def Let_def merge_apply)
next
  assume "\<not> shouldStyleWithCss editor"
  then show "\<forall>k\<in>{''border-width'', ''border-spacing''}.
      computed_styles editor tableElm data k = None \<and>
      applied_styles editor tableElm data k = getDefaultStyles editor k"
    by (simp add: applied_styles_def computed_styles_def Let_def merge_apply)
next
  fix p n v
  assume "\<not> shouldStyleWithCss editor"
  then show "SetStyle p n v \<notin> set (applyDataToElement editor tableElm data)"
    by (simp add: applyDataToElement_def propagate_off)
qed

text \<open>
  C3 amended, on the two example hosts: with CSS styling on the applied map has no
  \<open>cellpadding\<close> and the default \<open>border\<close>; with CSS styling off the applied style
  map has no \<open>border-width\<close>, and the attributes are those of the form data.
\<close>

theorem applyDataToElement_border_keys_witness:
  "shouldStyleWithCss css_editor \<and>
   computed_attrs css_editor nested_table example_data ''cellpadding'' = None \<and>
   applied_attrs css_editor nested_table example_data ''cellpadding'' = None \<and>
   applied_attrs css_editor nested_table example_data ''border'' = Some (Some ''1'') \<and>
   \<not> shouldStyleWithCss attr_editor \<and>
   applied_styles attr_editor nested_table example_data ''border-width'' = None \<and>
   applied_attrs attr_editor nested_table example_data ''border'' = Some (Some ''1'') \<and>
   applied_attrs attr_editor nested_table example_data ''cellpadding'' = Some (Some ''3'')"
proof -
  have css: "shouldStyleWithCss css_editor" and attr: "\<not> shouldStyleWithCss attr_editor"
    by (simp_all add: editor_defs)
  from applyDataToElement_border_keys [of css_editor nested_table example_data] css
  have "computed_attrs css_editor nested_table example_data ''cellpadding'' = None"
    and "applied_attrs css_editor nested_table example_data ''cellpadding'' =
      getDefaultAttributes css_editor ''cellpadding''"
    and "applied_attrs css_editor nested_table example_data ''border'' =
      getDefaultAttributes css_editor ''border''"
    by simp_all
  moreover from applyDataToElement_border_keys [of attr_editor nested_table example_data] attr
  have "applied_styles attr_editor nested_table example_data ''border-width'' =
      getDefaultStyles attr_editor ''border-width''"
    by simp
  moreover have "applied_attrs attr_editor nested_table example_data ''border'' = Some (Some ''1'')"
    and "applied_attrs attr_editor nested_table example_data ''cellpadding'' = Some (Some ''3'')"
    by (simp_all add: applied_attrs_def computed_attrs_def Let_def merge_apply editor_defs)
  ultimately show ?thesis
    using css attr by (simp add: editor_defs)
qed

subsection \<open>Claim C4\<close>

text \<open>
  C4 as stated does not hold in its last part: the style map that is serialized is the
  computed map merged over the host's default styles. For a table with a \<open>width\<close>
  attribute, CSS styling off and the width \<open>200\<close> in the form data, the width attribute
  is \<open>200\<close>, and a host whose default styles have a \<open>width\<close> still has it in
  the applied style map.
\<close>

theorem applyDataToElement_default_width_counterexample:
  "getAttrib nested_table ''width'' \<noteq> [] \<and>
   \<not> shouldStyleWithCss attr_editor \<and>
   width example_data = Some ''200'' \<and>
   applied_attrs attr_editor nested_table example_data ''width'' = Some (Some ''200'') \<and>
   applied_attrs attr_editor nested_table example_data ''style'' =
     Some (Some (serializeStyle attr_editor (applied_styles attr_editor nested_table example_data))) \<and>
   applied_styles attr_editor nested_table example_data ''width'' = Some (Some ''100%'')"
  by (simp add: applied_attrs_def applied_styles_def computed_attrs_def computed_styles_def
      Let_def merge_apply editor_defs example_defs getAttrib_def removePxSuffix_def suffix_def)

text \<open>
  C4, amended. When the element carries a width attribute (\<open>dom.getAttrib\<close> gives a
  non-empty value) and CSS styling is off, the width of the form data is put into the
  applied attribute map with a pixel suffix stripped, and the form data puts no width
  into the style map: the applied style map has a width only as the host's default
  styles have one. Otherwise the width of the form data is put into the applied style
  map, with a length unit added to a bare number, and the form data puts no width into
  the attribute map. In particular, with a width attribute, CSS styling off and the
  width \<open>200\<close>, the applied width attribute is \<open>200\<close>.
\<close>

theorem applyDataToElement_width:
  "(getAttrib tableElm ''width'' \<noteq> [] \<and> \<not> shouldStyleWithCss editor \<longrightarrow>
      applied_attrs editor tableElm data ''width'' = Some (removePxSuffix (width data)) \<and>
      computed_styles editor tableElm data ''width'' = None \<and>
      applied_styles editor tableElm data ''width'' = getDefaultStyles editor ''width'') \<and>
   (\<not> (getAttrib tableElm ''width'' \<noteq> [] \<and> \<not> shouldStyleWithCss editor) \<longrightarrow>
      applied_styles editor tableElm data ''width'' = Some (addSizeSuffix (width data)) \<and>
      computed_attrs editor tableElm data ''width'' = None \<and>
      applied_attrs editor tableElm data ''width'' = getDefaultAttributes editor ''width'') \<and>
   (getAttrib tableElm ''width'' \<noteq> [] \<and> \<not> shouldStyleWithCss editor \<and>
    width data = Some ''200'' \<longrightarrow>
      applied_attrs editor tableElm data ''width'' = Some (Some ''200'') \<and>
      computed_styles editor tableElm data ''width'' = None) \<and>
   (\<not> (getAttrib tableElm ''width'' \<noteq> [] \<and> \<not> shouldStyleWithCss editor) \<and>
    width data = Some ''200'' \<longrightarrow>
      applied_styles editor tableElm data ''width'' = Some (Some ''200px''))"
proof (intro conjI impI)
  assume a: "getAttrib tableElm ''width'' \<noteq> [] \<and> \<not> shouldStyleWithCss editor"
  then show "applied_attrs editor tableElm data ''width'' = Some (removePxSuffix (width data))"
    by (simp add: applied_attrs_def computed_attrs_def Let_def merge_apply)
  from a show "computed_styles editor tableElm data ''width'' = None"
    by (simp add: computed_styles_def Let_def)
  then show "applied_styles editor tableElm data ''width'' = getDefaultStyles editor ''width''"
    by (simp add: applied_styles_def merge_apply)
next
  assume a: "\<not> (getAttrib tableElm ''width'' \<noteq> [] \<and> \<not> shouldStyleWithCss editor)"
  then show "applied_styles editor tableElm data ''width'' = Some (addSizeSuffix (width data))"
    by (auto simp add: applied_styles_def computed_styles_def Let_def merge_apply)
  from a show "computed_attrs editor tableElm data ''width'' = None"
    by (auto simp add: computed_attrs_def Let_def)
  then show "applied_attrs editor tableElm data ''width'' = getDefaultAttributes editor ''width''"
    by (simp add: applied_attrs_def merge_apply)
next
  assume a: "getAttrib tableElm ''width'' \<noteq> [] \<and> \<not> shouldStyleWithCss editor \<and>
    width data = Some ''200''"
  then show "applied_attrs editor tableElm data ''width'' = Some (Some ''200'')"
    by (simp add: applied_attrs_def computed_attrs_def Let_def merge_apply
        removePxSuffix_def suffix_def)
  from a show "computed_styles editor tableElm data ''width'' = None"
    by (simp add: computed_styles_def Let_def)
next
  assume a: "\<not> (getAttrib tableElm ''width'' \<noteq> [] \<and> \<not> shouldStyleWithCss editor) \<and>
    width data = Some ''200''"
  then show "applied_styles editor tableElm data ''width'' = Some (Some ''200px'')"
    by (auto simp add: applied_styles_def computed_styles_def Let_def merge_apply
        addSizeSuffix_def is_digit_def)
qed

text \<open>
  C4 amended, on the example table, which has the width attribute \<open>300\<close>: with CSS
  styling off the width goes to the attribute, with CSS styling on to the style.
\<close>

theorem applyDataToElement_width_witness:
  "getAttrib nested_table ''width'' \<noteq> [] \<and>
   \<not> shouldStyleWithCss attr_editor \<and>
   width example_data = Some ''200'' \<and>
   applied_attrs attr_editor nested_table example_data ''width'' = Some (Some ''200'') \<and>
   computed_styles attr_editor nested_table example_data ''width'' = None \<and>
   shouldStyleWithCss css_editor \<and>
   applied_styles css_editor nested_table example_data ''width'' = Some (Some ''200px'') \<and>
   computed_attrs css_editor nested_table example_data ''width'' = None"
proof -
  have a: "getAttrib nested_table ''width'' \<noteq> []"
    by (simp add: getAttrib_def example_defs)
  have b: "\<not> shouldStyleWithCss attr_editor" and c: "shouldStyleWithCss css_editor"
    and d: "width example_data = Some ''200''"
    by (simp_all add: editor_defs)
  from applyDataToElement_width [of nested_table attr_editor example_data] a b d
  have "applied_attrs attr_editor nested_table example_data ''width'' = Some (Some ''200'')"
    and "computed_styles attr_editor nested_table example_data ''width'' = None"
    by blast+
  moreover from applyDataToElement_width [of nested_table css_editor example_data] c d
  have "applied_styles css_editor nested_table example_data ''width'' = Some (Some ''200px'')"
    and "computed_attrs css_editor nested_table example_data ''width'' = None"
    by blast+
  ultimately show ?thesis
    using a b c d by simp
qed

subsection \<open>Claim C10\<close>

text \<open>
  C10. The computed attribute map always has the key \<open>class\<close>, with the class field of
  the form data as its value: \<open>undefined\<close> when the field is absent. The map given to
  \<open>dom.setAttribs\<close> has the same entry whatever the host's default attributes are, so
  that a default class is shadowed.
\<close>

theorem applyDataToElement_class_shadows_default:
  "computed_attrs editor tableElm data ''class'' = Some (class' data) \<and>
   applied_attrs editor tableElm data ''class'' = Some (class' data) \<and>
   SetAttribs [] (applied_attrs editor tableElm data)
     \<in> set (applyDataToElement editor tableElm data)"
proof (intro conjI)
  show "computed_attrs editor tableElm data ''class'' = Some (class' data)"
    by (simp add: computed_attrs_def Let_def)
  then show "applied_attrs editor tableElm data ''class'' = Some (class' data)"
    by (simp add: applied_attrs_def merge_apply)
  show "SetAttribs [] (applied_attrs editor tableElm data)
      \<in> set (applyDataToElement editor tableElm data)"
    by (simp add: applyDataToElement_def)
qed

text \<open>
  C10, on the example host, whose default class is \<open>grid\<close>: with the class field
  absent the applied map has the key \<open>class\<close> with the value \<open>undefined\<close>.
\<close>

theorem applyDataToElement_class_shadows_default_witness:
  "getDefaultAttributes css_editor ''class'' = Some (Some ''grid'') \<and>
   class' (example_data\<lparr>class' := None\<rparr>) = None \<and>
   applied_attrs css_editor nested_table (example_data\<lparr>class' := None\<rparr>) ''class'' = Some None"
  using applyDataToElement_class_shadows_default
    [of css_editor nested_table "example_data\<lparr>class' := None\<rparr>"]
  by (simp add: editor_defs)

subsection \<open>Claim C8\<close>

lemma node_at_child:
  "(node_at elm [i] = Some k) = ((i, k) \<in> set (element_children elm))"
  by (auto simp: element_children_mem split: sum.splits)

lemma cell_targets_iff:
  "cell_targets tableElm q =
     (\<exists>cs c q'. children tableElm = Some cs \<and> c \<in> set cs \<and> q = fst c # q' \<and>
        first_layer (snd c) q')"
proof (cases q)
  case Nil
  then show ?thesis
    by (simp add: cell_targets_def)
next
  case (Cons i q')
  show ?thesis
  proof (cases "children tableElm")
    case None
    with Cons show ?thesis
      by (simp add: cell_targets_def)
  next
    case (Some cs)
    then have cs: "cs = element_children tableElm"
      by (simp add: children_def split: if_splits)
    have "cell_targets tableElm q = (\<exists>k. node_at tableElm [i] = Some k \<and> first_layer k q')"
      using Cons Some by (auto simp add: cell_targets_def split: option.splits)
    also have "\<dots> = (\<exists>k. (i, k) \<in> set cs \<and> first_layer k q')"
      unfolding node_at_child cs ..
    also have "\<dots> = (\<exists>c q''. c \<in> set cs \<and> q = fst c # q'' \<and> first_layer (snd c) q'')"
      using Cons by force
    finally show ?thesis
      using Some by simp
  qed
qed

lemma propagate_mem:
  "(SetStyle q name None \<in> set (propagate editor tableElm data)) =
     (shouldStyleWithCss editor \<and> cell_targets tableElm q \<and>
      (name = StyleMap (cell_border_padding data) \<or>
       hasAdvancedTableTab editor \<and> name = StyleMap (cell_border_color data)))"
proof (cases "shouldStyleWithCss editor \<and> children tableElm \<noteq> None")
  case False
  then have "propagate editor tableElm data = []"
    by (intro propagate_none) auto
  moreover from False have "\<not> (shouldStyleWithCss editor \<and> cell_targets tableElm q)"
    by (auto simp: cell_targets_iff)
  ultimately show ?thesis
    by auto
next
  case True
  then obtain cs where css: "shouldStyleWithCss editor" and cs: "children tableElm = Some cs"
    by auto
  have one: "(SetStyle q name None \<in> set (styleTDTH [fst c] (snd c) n None)) =
      (name = n \<and> (\<exists>q'. q = fst c # q' \<and> first_layer (snd c) q'))" for c n
    by (auto simp: styleTDTH_set)
  have "(SetStyle q name None \<in> set (propagate editor tableElm data)) =
      (\<exists>c\<in>set cs.
         SetStyle q name None
           \<in> set (styleTDTH [fst c] (snd c) (StyleMap (cell_border_padding data)) None) \<or>
         hasAdvancedTableTab editor \<and>
         SetStyle q name None
           \<in> set (styleTDTH [fst c] (snd c) (StyleMap (cell_border_color data)) None))"
    unfolding propagate_on [OF css cs] by auto
  also have "\<dots> =
      ((\<exists>c\<in>set cs. \<exists>q'. q = fst c # q' \<and> first_layer (snd c) q') \<and>
       (name = StyleMap (cell_border_padding data) \<or>
        hasAdvancedTableTab editor \<and> name = StyleMap (cell_border_color data)))"
    unfolding one by blast
  also have "(\<exists>c\<in>set cs. \<exists>q'. q = fst c # q' \<and> first_layer (snd c) q') =
      cell_targets tableElm q"
    unfolding cell_targets_iff cs by force
  finally show ?thesis
    using css by simp
qed

lemma cell_style_maps_differ: "cell_border_padding data \<noteq> cell_border_color data"
proof
  assume "cell_border_padding data = cell_border_color data"
  then have "cell_border_padding data ''padding'' = cell_border_color data ''padding''"
    by simp
  then show False
    by (simp add: cell_border_padding_def cell_border_color_def)
qed

text \<open>
  C8 as stated does not hold: with CSS styling on and the advanced tab disabled,
  \<open>border-width\<close> and \<open>padding\<close> are still handed down to the cells of the table.
\<close>

theorem applyDataToElement_propagation_counterexample:
  "shouldStyleWithCss css_editor \<and>
   \<not> hasAdvancedTableTab css_editor \<and>
   SetStyle [1, 0, 0] (StyleMap (cell_border_padding example_data)) None
     \<in> set (applyDataToElement css_editor nested_table example_data)"
  by (simp add: applyDataToElement_def propagate_def children_Element styleTDTH_Element
      css_editor_def example_defs)

text \<open>
  C8, amended. \<open>applyDataToElement\<close> hands \<open>border-width\<close> and \<open>padding\<close> down to
  the first layer of cells of every child subtree exactly when the host styles with
  CSS (and the table has a children list), whether the advanced tab is enabled
  or not; it hands \<open>border-color\<close> down to the same cells exactly when, in addition, the
  advanced tab is enabled. It styles nothing else: every other call is the one call of
  \<open>dom.setAttribs\<close>. With CSS styling off nothing is handed down.
\<close>

theorem applyDataToElement_propagation:
  "(SetStyle q (StyleMap (cell_border_padding data)) None
      \<in> set (applyDataToElement editor tableElm data)) =
     (shouldStyleWithCss editor \<and> cell_targets tableElm q) \<and>
   (SetStyle q (StyleMap (cell_border_color data)) None
      \<in> set (applyDataToElement editor tableElm data)) =
     (shouldStyleWithCss editor \<and> hasAdvancedTableTab editor \<and> cell_targets tableElm q) \<and>
   (\<forall>x\<in>set (applyDataToElement editor tableElm data).
      x = SetAttribs [] (applied_attrs editor tableElm data) \<or>
      (\<exists>q'. cell_targets tableElm q' \<and>
        (x = SetStyle q' (StyleMap (cell_border_padding data)) None \<or>
         x = SetStyle q' (StyleMap (cell_border_color data)) None)))"
proof (intro conjI ballI)
  show "(SetStyle q (StyleMap (cell_border_padding data)) None
      \<in> set (applyDataToElement editor tableElm data)) =
     (shouldStyleWithCss editor \<and> cell_targets tableElm q)"
    using cell_style_maps_differ [of data]
    by (auto simp add: applyDataToElement_def propagate_mem)
  show "(SetStyle q (StyleMap (cell_border_color data)) None
      \<in> set (applyDataToElement editor tableElm data)) =
     (shouldStyleWithCss editor \<and> hasAdvancedTableTab editor \<and> cell_targets tableElm q)"
    using cell_style_maps_differ [of data]
    by (auto simp add: applyDataToElement_def propagate_mem)
next
  fix x
  assume x: "x \<in> set (applyDataToElement editor tableElm data)"
  show "x = SetAttribs [] (applied_attrs editor tableElm data) \<or>
      (\<exists>q'. cell_targets tableElm q' \<and>
        (x = SetStyle q' (StyleMap (cell_border_padding data)) None \<or>
         x = SetStyle q' (StyleMap (cell_border_color data)) None))"
  proof (cases "x \<in> set (propagate editor tableElm data)")
    case False
    with x show ?thesis
      by (simp add: applyDataToElement_def)
  next
    case True
    then obtain q' n where "x = SetStyle q' n None"
      by (blast dest: propagate_calls)
    with True show ?thesis
      by (auto simp: propagate_mem)
  qed
qed

text \<open>
  C8 amended, on the example: with CSS styling on and the advanced tab disabled the
  outer cell is given \<open>border-width\<close> and \<open>padding\<close> and no \<open>border-color\<close>; with CSS
  styling off it is given nothing.
\<close>

theorem applyDataToElement_propagation_witness:
  "cell_targets nested_table [1, 0, 0] \<and>
   SetStyle [1, 0, 0] (StyleMap (cell_border_padding example_data)) None
     \<in> set (applyDataToElement css_editor nested_table example_data) \<and>
   SetStyle [1, 0, 0] (StyleMap (cell_border_color example_data)) None
     \<notin> set (applyDataToElement css_editor nested_table example_data) \<and>
   SetStyle [1, 0, 0] (StyleMap (cell_border_padding example_data)) None
     \<notin> set (applyDataToElement attr_editor nested_table example_data)"
proof -
  have t: "cell_targets nested_table [1, 0, 0]"
    by (simp add: cell_targets_def first_layer_def is_cell_def children_Element example_defs)
  have e: "shouldStyleWithCss css_editor" "\<not> hasAdvancedTableTab css_editor"
    "\<not> shouldStyleWithCss attr_editor"
    by (simp_all add: editor_defs)
  from applyDataToElement_propagation [of "[1, 0, 0]" example_data css_editor nested_table]
    applyDataToElement_propagation [of "[1, 0, 0]" example_data attr_editor nested_table] t e
  show ?thesis
    by blast
qed

subsection \<open>The caption query\<close>








subsection \<open>The submit handler, step by step\<close>

lemma onSubmitTableForm_table:
  "table (onSubmitTableForm editor tableElm data) =
     (let t = submitted_table editor tableElm data in
      case select ''caption'' t of
        [] \<Rightarrow> if caption data = Str ''checked''
              then insertBefore_firstChild
                     (set_innerHTML (caption_placeholder editor) (create ''caption'')) t
              else t
      | p # ps \<Rightarrow> if caption data \<noteq> Str ''checked'' then remove p t else t)"
  by (cases tableElm; cases "select ''caption'' (submitted_table editor tableElm data)")
    (auto simp add: onSubmitTableForm_def submitted_table_def Let_def)

lemma onSubmitTableForm_calls:
  "calls (onSubmitTableForm editor tableElm data) =
     [Close, TransactBegin] @
     (case tableElm of
        None \<Rightarrow> [InsertTable (if truthy (cols data) then the (cols data) else ''1'')
                   (if truthy (rows data) then the (rows data) else ''1'')]
      | Some t \<Rightarrow> []) @
     applyDataToElement editor (submitted_table editor tableElm data) (normalized data) @
     (if align data = Some [] then [UnApplyAlign] else [ApplyAlign (align data)]) @
     [Focus, AddVisual, TransactEnd]"
  by (cases tableElm)
    (auto simp add: onSubmitTableForm_def submitted_table_def normalized_def Let_def)



subsection \<open>Claim C6\<close>




subsection \<open>Claim C5\<close>

lemma onSubmitTableForm_normalized:
  "onSubmitTableForm editor tableElm (normalized data) = onSubmitTableForm editor tableElm data"
proof (cases "class' data = Some []")
  case True
  then have "normalized data = data\<lparr>class' := None\<rparr>"
    by (simp add: normalized_def)
  moreover have "onSubmitTableForm editor tableElm (data\<lparr>class' := None\<rparr>) =
      onSubmitTableForm editor tableElm data"
    unfolding onSubmitTableForm_def using True by simp
  ultimately show ?thesis
    by simp
next
  case False
  then show ?thesis
    by (simp add: normalized_def)
qed

lemma onSubmitTableForm_SetAttribs:
  "(SetAttribs p m \<in> set (calls (onSubmitTableForm editor tableElm data))) =
     (p = [] \<and>
      m = applied_attrs editor (submitted_table editor tableElm data) (normalized data))"
  by (cases tableElm) (auto simp add: onSubmitTableForm_calls SetAttribs_applied)

text \<open>
  C5. When the class of the submitted form data is the empty string, the handler
  does what it does on the same data without a class. The attribute map it applies,
  in its one call of \<open>dom.setAttribs\<close>, has the key \<open>class\<close> with the value
  \<open>undefined\<close>: never the empty string.
\<close>

theorem onSubmitTableForm_empty_class:
  assumes "class' data = Some []"
  shows "onSubmitTableForm editor tableElm data =
      onSubmitTableForm editor tableElm (data\<lparr>class' := None\<rparr>) \<and>
    (\<exists>m. SetAttribs [] m \<in> set (calls (onSubmitTableForm editor tableElm data))) \<and>
    (\<forall>p m. SetAttribs p m \<in> set (calls (onSubmitTableForm editor tableElm data)) \<longrightarrow>
       m ''class'' = Some None \<and> m ''class'' \<noteq> Some (Some []))"
proof (intro conjI allI impI)
  from assms have n: "normalized data = data\<lparr>class' := None\<rparr>"
    by (simp add: normalized_def)
  show "onSubmitTableForm editor tableElm data =
      onSubmitTableForm editor tableElm (data\<lparr>class' := None\<rparr>)"
    using onSubmitTableForm_normalized [of editor tableElm data] n by simp
  show "\<exists>m. SetAttribs [] m \<in> set (calls (onSubmitTableForm editor tableElm data))"
    by (simp add: onSubmitTableForm_SetAttribs)
  fix p m
  assume "SetAttribs p m \<in> set (calls (onSubmitTableForm editor tableElm data))"
  then have "m = applied_attrs editor (submitted_table editor tableElm data) (data\<lparr>class' := None\<rparr>)"
    by (simp add: onSubmitTableForm_SetAttribs n)
  then show "m ''class'' = Some None"
    by (simp add: applied_attrs_def computed_attrs_def Let_def merge_apply)
  then show "m ''class'' \<noteq> Some (Some [])"
    by simp
qed

text \<open>
  C5, on the example: the form data has the empty class, the host has the default
  class \<open>grid\<close>, and the applied map has the class \<open>undefined\<close>.
\<close>

theorem onSubmitTableForm_empty_class_witness:
  "class' example_data = Some [] \<and>
   onSubmitTableForm css_editor (Some nested_table) example_data =
     onSubmitTableForm css_editor (Some nested_table) (example_data\<lparr>class' := None\<rparr>) \<and>
   SetAttribs []
     (applied_attrs css_editor nested_table (example_data\<lparr>class' := None\<rparr>))
     \<in> set (calls (onSubmitTableForm css_editor (Some nested_table) example_data)) \<and>
   applied_attrs css_editor nested_table (example_data\<lparr>class' := None\<rparr>) ''class'' =
     Some None"
proof -
  have c: "class' example_data = Some []"
    by (simp add: editor_defs)
  have n: "normalized example_data = example_data\<lparr>class' := None\<rparr>"
    by (simp add: normalized_def c)
  have mem: "SetAttribs []
     (applied_attrs css_editor nested_table (example_data\<lparr>class' := None\<rparr>))
     \<in> set (calls (onSubmitTableForm css_editor (Some nested_table) example_data))"
    by (simp add: onSubmitTableForm_SetAttribs submitted_table_def n)
  from onSubmitTableForm_empty_class [OF c, of css_editor "Some nested_table"] mem c
  show ?thesis
    by blast
qed

subsection \<open>Claim C9\<close>

text \<open>The submit handler does not read the selection.\<close>

lemma computed_selection:
  "computed_attrs (editor\<lparr>selectionTable := sel\<rparr>) = computed_attrs editor"
  "computed_styles (editor\<lparr>selectionTable := sel\<rparr>) = computed_styles editor"
  by (simp_all add: computed_attrs_def computed_styles_def fun_eq_iff)

lemma applied_selection:
  "applied_attrs (editor\<lparr>selectionTable := sel\<rparr>) = applied_attrs editor"
  by (simp add: applied_attrs_def applied_styles_def computed_selection fun_eq_iff)

lemma propagate_selection:
  "propagate (editor\<lparr>selectionTable := sel\<rparr>) = propagate editor"
  by (simp add: propagate_def fun_eq_iff split: option.splits)

lemma applyDataToElement_selection:
  "applyDataToElement (editor\<lparr>selectionTable := sel\<rparr>) = applyDataToElement editor"
  by (simp add: applyDataToElement_def applied_selection propagate_selection fun_eq_iff)

lemma submitted_table_selection:
  "submitted_table (editor\<lparr>selectionTable := sel\<rparr>) = submitted_table editor"
  by (simp add: submitted_table_def fun_eq_iff split: option.splits)

lemma caption_placeholder_selection:
  "caption_placeholder (editor\<lparr>selectionTable := sel\<rparr>) = caption_placeholder editor"
  by (simp add: caption_placeholder_def)

lemma onSubmitTableForm_selection:
  "onSubmitTableForm (editor\<lparr>selectionTable := sel\<rparr>) tableElm data =
     onSubmitTableForm editor tableElm data"
proof (rule submit_result.equality)
  show "table (onSubmitTableForm (editor\<lparr>selectionTable := sel\<rparr>) tableElm data) =
      table (onSubmitTableForm editor tableElm data)"
    unfolding onSubmitTableForm_table submitted_table_selection caption_placeholder_selection ..
  show "calls (onSubmitTableForm (editor\<lparr>selectionTable := sel\<rparr>) tableElm data) =
      calls (onSubmitTableForm editor tableElm data)"
    unfolding onSubmitTableForm_calls submitted_table_selection applyDataToElement_selection ..
qed simp

text \<open>
  C9. When \<open>isNew\<close> is not \<open>false\<close> (it is \<open>true\<close> or unset), the submit handler of the
  dialog is bound to no table element, and it is the same handler whatever table the
  selection is in. On submit it calls the insertion collaborator, right after the dialog
  is closed and the transaction is opened, and the table it works on is the one that
  the collaborator returns.
\<close>

theorem open_new_inserts_table:
  assumes "isNew \<noteq> Some False"
  shows "onSubmit (open editor isNew) = onSubmitTableForm editor None \<and>
    onSubmit (open (editor\<lparr>selectionTable := sel\<rparr>) isNew) = onSubmit (open editor isNew) \<and>
    take 3 (calls (onSubmit (open editor isNew) data)) =
      [Close, TransactBegin,
       InsertTable (if truthy (cols data) then the (cols data) else ''1'')
         (if truthy (rows data) then the (rows data) else ''1'')] \<and>
    table (onSubmit (open editor isNew) data) =
      table (onSubmitTableForm editor
        (Some (insertTable editor (if truthy (cols data) then the (cols data) else ''1'')
           (if truthy (rows data) then the (rows data) else ''1''))) data)"
proof (intro conjI)
  from assms show b: "onSubmit (open editor isNew) = onSubmitTableForm editor None"
    by (simp add: open_def Let_def)
  from assms have "onSubmit (open (editor\<lparr>selectionTable := sel\<rparr>) isNew) =
      onSubmitTableForm (editor\<lparr>selectionTable := sel\<rparr>) None"
    by (simp add: open_def Let_def)
  then show "onSubmit (open (editor\<lparr>selectionTable := sel\<rparr>) isNew) =
      onSubmit (open editor isNew)"
    unfolding b by (simp add: onSubmitTableForm_selection fun_eq_iff)
  show "take 3 (calls (onSubmit (open editor isNew) data)) =
      [Close, TransactBegin,
       InsertTable (if truthy (cols data) then the (cols data) else ''1'')
         (if truthy (rows data) then the (rows data) else ''1'')]"
    unfolding b by (simp add: onSubmitTableForm_calls)
  show "table (onSubmit (open editor isNew) data) =
      table (onSubmitTableForm editor
        (Some (insertTable editor (if truthy (cols data) then the (cols data) else ''1'')
           (if truthy (rows data) then the (rows data) else ''1''))) data)"
    unfolding b by (simp add: onSubmitTableForm_table submitted_table_def)
qed

text \<open>
  C9, on the example host, whose selection is in a table: with \<open>isNew\<close> unset the
  handler inserts a table, with one column and one row as the form data has none.
\<close>

theorem open_new_inserts_table_witness:
  "selectionTable css_editor = Some nested_table \<and>
   onSubmit (open css_editor None) = onSubmitTableForm css_editor None \<and>
   take 3 (calls (onSubmit (open css_editor None) example_data)) =
     [Close, TransactBegin, InsertTable ''1'' ''1''] \<and>
   table (onSubmit (open css_editor None) example_data) =
     table (onSubmitTableForm css_editor (Some (Element ''TABLE'' [] True [])) example_data)"
proof -
  have "(None :: bool option) \<noteq> Some False"
    by simp
  from open_new_inserts_table [OF this, of css_editor _ example_data]
  have a: "onSubmit (open css_editor None) = onSubmitTableForm css_editor None"
    and b: "take 3 (calls (onSubmit (open css_editor None) example_data)) =
      [Close, TransactBegin,
       InsertTable (if truthy (cols example_data) then the (cols example_data) else ''1'')
         (if truthy (rows example_data) then the (rows example_data) else ''1'')]"
    and c: "table (onSubmit (open css_editor None) example_data) =
      table (onSubmitTableForm css_editor
        (Some (insertTable css_editor
           (if truthy (cols example_data) then the (cols example_data) else ''1'')
           (if truthy (rows example_data) then the (rows example_data) else ''1''))) example_data)"
    by blast+
  have d: "cols example_data = None" "rows example_data = None"
    by (simp_all add: example_data_def)
  have e: "insertTable css_editor x y = Element ''TABLE'' [] True []" for x y
    by (simp add: css_editor_def)
  have f: "selectionTable css_editor = Some nested_table"
    by (simp add: css_editor_def)
  from a b c f show ?thesis
    by (simp add: d e)
qed

subsection \<open>Claim C7\<close>

text \<open>
  C7 as stated does not hold: the branch for an \<open>isNew\<close> that is not \<open>false\<close> sets the
  columns and rows to \<open>1\<close> without testing that \<open>isNew\<close> is \<open>true\<close>. With \<open>isNew\<close>
  unset, on a host whose settings give three columns and no rows, the initial data has
  one column and one row.
\<close>

theorem open_unset_cols_rows_counterexample:
  "cols (extractDataFromSettings css_editor (hasAdvancedTableTab css_editor)) = Some ''3'' \<and>
   rows (extractDataFromSettings css_editor (hasAdvancedTableTab css_editor)) = None \<and>
   cols (initialData (open css_editor None)) = Some ''1'' \<and>
   rows (initialData (open css_editor None)) = Some ''1''"
  by (simp add: open_def Let_def editor_defs)

text \<open>
  C7, amended. When \<open>isNew\<close> is not \<open>false\<close> (it is \<open>true\<close> or unset), the initial
  form data is the data derived from the settings, with the columns and the rows set
  to \<open>1\<close> in both cases, with the border style, border colour and background colour
  blanked when the advanced tab is enabled, and with the marker class stripped from a
  non-empty class when a class list is configured. Every other field is as the
  settings give it.
\<close>

theorem open_new_initial_data:
  assumes "isNew \<noteq> Some False"
  shows "cols (initialData (open editor isNew)) = Some ''1'' \<and>
    rows (initialData (open editor isNew)) = Some ''1'' \<and>
    (hasAdvancedTableTab editor \<longrightarrow>
       borderstyle (initialData (open editor isNew)) = Some [] \<and>
       bordercolor (initialData (open editor isNew)) = Some [] \<and>
       backgroundcolor (initialData (open editor isNew)) = Some []) \<and>
    (\<not> hasAdvancedTableTab editor \<longrightarrow>
       borderstyle (initialData (open editor isNew)) =
         borderstyle (extractDataFromSettings editor (hasAdvancedTableTab editor)) \<and>
       bordercolor (initialData (open editor isNew)) =
         bordercolor (extractDataFromSettings editor (hasAdvancedTableTab editor)) \<and>
       backgroundcolor (initialData (open editor isNew)) =
         backgroundcolor (extractDataFromSettings editor (hasAdvancedTableTab editor))) \<and>
    width (initialData (open editor isNew)) =
      width (extractDataFromSettings editor (hasAdvancedTableTab editor)) \<and>
    height (initialData (open editor isNew)) =
      height (extractDataFromSettings editor (hasAdvancedTableTab editor)) \<and>
    cellspacing (initialData (open editor isNew)) =
      cellspacing (extractDataFromSettings editor (hasAdvancedTableTab editor)) \<and>
    cellpadding (initialData (open editor isNew)) =
      cellpadding (extractDataFromSettings editor (hasAdvancedTableTab editor)) \<and>
    border (initialData (open editor isNew)) =
      border (extractDataFromSettings editor (hasAdvancedTableTab editor)) \<and>
    caption (initialData (open editor isNew)) =
      caption (extractDataFromSettings editor (hasAdvancedTableTab editor)) \<and>
    align (initialData (open editor isNew)) =
      align (extractDataFromSettings editor (hasAdvancedTableTab editor)) \<and>
    class' (initialData (open editor isNew)) =
      (if getTableClassList editor \<noteq> [] \<and>
          truthy (class' (extractDataFromSettings editor (hasAdvancedTableTab editor)))
       then Some (replace_marker
              (the (class' (extractDataFromSettings editor (hasAdvancedTableTab editor)))))
       else class' (extractDataFromSettings editor (hasAdvancedTableTab editor)))"
  using assms by (simp add: open_def Let_def)

text \<open>
  C7 amended, on the example host: with \<open>isNew\<close> true the initial data has one column
  and one row and the width of the settings; with the advanced tab enabled the border
  style is blank.
\<close>

theorem open_new_initial_data_witness:
  "cols (initialData (open css_editor (Some True))) = Some ''1'' \<and>
   rows (initialData (open css_editor (Some True))) = Some ''1'' \<and>
   width (initialData (open css_editor (Some True))) = Some ''200'' \<and>
   borderstyle (initialData (open (css_editor\<lparr>hasAdvancedTableTab := True\<rparr>) (Some True))) =
     Some []"
proof -
  have n: "Some True \<noteq> Some False"
    by simp
  have a: "hasAdvancedTableTab (css_editor\<lparr>hasAdvancedTableTab := True\<rparr>)"
    by simp
  have w: "width (extractDataFromSettings css_editor (hasAdvancedTableTab css_editor)) = Some ''200''"
    by (simp add: editor_defs)
  from open_new_initial_data [OF n, of css_editor]
    open_new_initial_data [OF n, of "css_editor\<lparr>hasAdvancedTableTab := True\<rparr>"] a w
  show ?thesis
    by simp
qed

end
